theory Spec2Isabelle
  imports Main "HOL-Library.AList"
begin

section \<open>Data model of \<^verbatim>\<open>app/main.py\<close>\<close>

text \<open>
  The values \<^verbatim>\<open>json.loads\<close> can return. A Python \<^verbatim>\<open>dict\<close> is an association list
  in insertion order; \<^verbatim>\<open>None\<close> is \<open>JNull\<close>. The numeric content of a number never
  matters to the server (a number is hashable and is never equal to a \<^verbatim>\<open>str\<close>), so one
  constructor stands for all of them.
\<close>

datatype json =
    JNull
  | JBool bool
  | JNum int
  | JStr string
  | JArr "json list"
  | JObj "(string \<times> json) list"

text \<open>
  A \<^verbatim>\<open>WebSocket\<close> object is known by its identity; a room dictionary lives in the heap
  and is known by its address, because \<^verbatim>\<open>websocket_endpoint\<close> keeps the reference
  \<^verbatim>\<open>room = rooms[room_id]\<close> for the whole life of the connection while the registry
  \<^verbatim>\<open>rooms\<close> may drop and re-create the entry.
\<close>

type_synonym ws = nat
type_synonym ref = nat

text \<open>
  The text handed to \<^verbatim>\<open>send_text\<close>: either a received string forwarded as it came
  (\<open>Raw\<close>) or \<^verbatim>\<open>json.dumps\<close> of a value (\<open>Dumps\<close>).
\<close>

datatype payload = Raw string | Dumps json

text \<open>
  What the server does to connections, in order. \<open>Send w t b\<close> is the call
  \<^verbatim>\<open>w.send_text(t)\<close>; \<open>b\<close> tells whether it returned (\<open>True\<close>) or raised (\<open>False\<close>).
\<close>

datatype event = Accepted ws | Send ws payload bool | Closed ws

datatype error = JSONDecodeError | AttributeError | TypeError | KeyError | SendError

text \<open>
  \<^verbatim>\<open>{ "users": { user_id: WebSocket }, "host": user_id, "password": str, "locked": bool }\<close>.
  The password is whatever \<^verbatim>\<open>data.get("password", "")\<close> returned, so it is a \<open>json\<close>.
\<close>

record room =
  users :: "(string \<times> ws) list"
  host :: string
  password :: json
  locked :: bool

record server =
  rooms :: "(string \<times> ref) list"
  heap :: "ref \<Rightarrow> room"
  next_ref :: ref
  trace :: "event list"

text \<open>
  The transport decides whether a \<^verbatim>\<open>send_text\<close> returns or raises; it may depend on
  everything that happened before and on the connection.
\<close>

type_synonym transport = "event list \<Rightarrow> ws \<Rightarrow> bool"

section \<open>Python dictionaries\<close>

text \<open>\<^verbatim>\<open>data.get(key)\<close> and \<^verbatim>\<open>data.get(key, default)\<close>.\<close>

definition dict_get :: "(string \<times> json) list \<Rightarrow> string \<Rightarrow> json \<Rightarrow> json" where
  "dict_get d k dflt = (case map_of d k of None \<Rightarrow> dflt | Some v \<Rightarrow> v)"

text \<open>
  Looking a decoded value up among the keys of \<^verbatim>\<open>room["users"]\<close>, as
  \<^verbatim>\<open>key in room["users"]\<close> and \<^verbatim>\<open>room["users"][key]\<close> do: a list or a dict is
  unhashable (\<^verbatim>\<open>TypeError\<close>), the keys are all \<^verbatim>\<open>str\<close>, and no other value is equal
  to a \<^verbatim>\<open>str\<close>.
\<close>

fun find_key :: "json \<Rightarrow> (string \<times> 'v) list \<Rightarrow> error + 'v option" where
  "find_key (JStr u) d = Inr (map_of d u)"
| "find_key (JArr xs) d = Inl TypeError"
| "find_key (JObj kvs) d = Inl TypeError"
| "find_key JNull d = Inr None"
| "find_key (JBool b) d = Inr None"
| "find_key (JNum n) d = Inr None"

text \<open>\<^verbatim>\<open>del d[key]\<close> for a key that \<open>find_key\<close> has found.\<close>

fun del_key :: "json \<Rightarrow> (string \<times> 'v) list \<Rightarrow> (string \<times> 'v) list" where
  "del_key (JStr u) d = AList.delete u d"
| "del_key k d = d"

section \<open>Sending\<close>

definition send_text :: "transport \<Rightarrow> ws \<Rightarrow> payload \<Rightarrow> server \<Rightarrow> bool \<times> server" where
  "send_text ok w t s =
     (ok (trace s) w, s\<lparr>trace := trace s @ [Send w t (ok (trace s) w)]\<rparr>)"

definition close :: "ws \<Rightarrow> server \<Rightarrow> server" where
  "close w s = s\<lparr>trace := trace s @ [Closed w]\<rparr>"

definition set_users :: "ref \<Rightarrow> (string \<times> ws) list \<Rightarrow> server \<Rightarrow> server" where
  "set_users r us s = s\<lparr>heap := (heap s)(r := (heap s r)\<lparr>users := us\<rparr>)\<rparr>"

text \<open>\<^verbatim>\<open>del room["users"][uid]\<close> on the room at address \<open>r\<close>.\<close>

definition del_user :: "ref \<Rightarrow> string \<Rightarrow> server \<Rightarrow> server" where
  "del_user r uid s = set_users r (AList.delete uid (users (heap s r))) s"

text \<open>
  The first loop of \<^verbatim>\<open>broadcast\<close>: one \<^verbatim>\<open>send_text\<close> per entry of
  \<^verbatim>\<open>room["users"].items()\<close> in order, skipping \<^verbatim>\<open>exclude\<close>; returns \<^verbatim>\<open>to_remove\<close>.
\<close>

fun send_each ::
  "transport \<Rightarrow> payload \<Rightarrow> string option \<Rightarrow> (string \<times> ws) list \<Rightarrow> server
     \<Rightarrow> string list \<times> server" where
  "send_each ok t exclude [] s = ([], s)"
| "send_each ok t exclude ((uid, w) # us) s =
     (if Some uid = exclude then send_each ok t exclude us s
      else (case send_text ok w t s of
              (True, s1) \<Rightarrow> send_each ok t exclude us s1
            | (False, s1) \<Rightarrow>
                (case send_each ok t exclude us s1 of
                   (to_remove, s2) \<Rightarrow> (uid # to_remove, s2))))"

definition broadcast ::
  "transport \<Rightarrow> string \<Rightarrow> json \<Rightarrow> string option \<Rightarrow> server \<Rightarrow> server" where
  "broadcast ok room_id message exclude s =
     (case map_of (rooms s) room_id of
        None \<Rightarrow> s
      | Some r \<Rightarrow>
          (let text = (case message of JStr m \<Rightarrow> Raw m | _ \<Rightarrow> Dumps message) in
           case send_each ok text exclude (users (heap s r)) s of
             (to_remove, s1) \<Rightarrow> fold (del_user r) to_remove s1))"

fun send_to_user ::
  "transport \<Rightarrow> string \<Rightarrow> json \<Rightarrow> payload \<Rightarrow> server \<Rightarrow> error option \<times> server" where
  "send_to_user ok room_id user_id message s =
     (case map_of (rooms s) room_id of
        None \<Rightarrow> (None, s)
      | Some r \<Rightarrow>
          (case find_key user_id (users (heap s r)) of
             Inl e \<Rightarrow> (Some e, s)
           | Inr None \<Rightarrow> (None, s)
           | Inr (Some w) \<Rightarrow>
               (case send_text ok w message s of
                  (True, s1) \<Rightarrow> (None, s1)
                | (False, s1) \<Rightarrow>
                    (None, set_users r (del_key user_id (users (heap s1 r))) s1))))"

definition notify_users :: "transport \<Rightarrow> string \<Rightarrow> json \<Rightarrow> server \<Rightarrow> server" where
  "notify_users ok room_id message s = broadcast ok room_id message None s"

section \<open>Disconnect\<close>

definition user_left :: "string \<Rightarrow> string \<Rightarrow> json" where
  "user_left user_id h =
     JObj [(''type'', JStr ''user-left''), (''userId'', JStr user_id), (''host'', JStr h)]"

definition handle_disconnect :: "transport \<Rightarrow> string \<Rightarrow> string \<Rightarrow> server \<Rightarrow> server" where
  "handle_disconnect ok room_id user_id s =
     (case map_of (rooms s) room_id of
        None \<Rightarrow> s
      | Some r \<Rightarrow>
          if map_of (users (heap s r)) user_id = None then s
          else
            (let s1 = del_user r user_id s in
             if user_id = host (heap s1 r) then
               (case users (heap s1 r) of
                  [] \<Rightarrow> s1\<lparr>rooms := AList.delete room_id (rooms s1)\<rparr>
                | (u, w) # us \<Rightarrow>
                    (let s2 = s1\<lparr>heap := (heap s1)(r := (heap s1 r)\<lparr>host := u\<rparr>)\<rparr> in
                     notify_users ok room_id (user_left user_id (host (heap s2 r))) s2))
             else notify_users ok room_id (user_left user_id (host (heap s1 r))) s1))"

section \<open>The endpoint\<close>

text \<open>
  The local variables of one running \<^verbatim>\<open>websocket_endpoint\<close>: its arguments and the
  room reference it took at line 32.
\<close>

record handler =
  h_ws :: ws
  h_room_id :: string
  h_user_id :: string
  h_room :: ref

datatype admission = Admitted ref | Rejected | Raised error

definition new_room :: "string \<Rightarrow> string \<Rightarrow> server \<Rightarrow> server" where
  "new_room room_id user_id s =
     s\<lparr>rooms := AList.update room_id (next_ref s) (rooms s),
       heap := (heap s)(next_ref s :=
                 \<lparr>users = [], host = user_id, password = JStr '''', locked = False\<rparr>),
       next_ref := Suc (next_ref s)\<rparr>"

definition error_locked :: json where
  "error_locked = JObj [(''type'', JStr ''error''), (''message'', JStr ''Room is locked'')]"

definition user_joined :: "string \<Rightarrow> string list \<Rightarrow> string \<Rightarrow> json" where
  "user_joined user_id uids h =
     JObj [(''type'', JStr ''user-joined''), (''userId'', JStr user_id),
           (''users'', JArr (map JStr uids)), (''host'', JStr h)]"

text \<open>Lines 21 to 47: accept, create the room if absent, admission, join, notify.\<close>

definition websocket_endpoint_join ::
  "transport \<Rightarrow> ws \<Rightarrow> string \<Rightarrow> string \<Rightarrow> server \<Rightarrow> admission \<times> server" where
  "websocket_endpoint_join ok websocket room_id user_id s =
     (let s0 = s\<lparr>trace := trace s @ [Accepted websocket]\<rparr>;
          s1 = (if map_of (rooms s0) room_id = None then new_room room_id user_id s0 else s0)
      in case map_of (rooms s1) room_id of
           None \<Rightarrow> (Raised KeyError, s1)
         | Some r \<Rightarrow>
             if locked (heap s1 r) \<and> user_id \<noteq> host (heap s1 r) then
               (case send_text ok websocket (Dumps error_locked) s1 of
                  (True, s2) \<Rightarrow> (Rejected, close websocket s2)
                | (False, s2) \<Rightarrow> (Raised SendError, s2))
             else
               (let s2 = set_users r (AList.update user_id websocket (users (heap s1 r))) s1 in
                (Admitted r,
                 notify_users ok room_id
                   (user_joined user_id (map fst (users (heap s2 r))) (host (heap s2 r))) s2)))"

text \<open>
  Lines 92 to 102, the \<^verbatim>\<open>kick\<close> branch. \<^verbatim>\<open>room\<close> is the handler's own reference;
  \<^verbatim>\<open>send_to_user\<close> and \<^verbatim>\<open>notify_users\<close> go through the registry.
\<close>

definition kick :: "transport \<Rightarrow> handler \<Rightarrow> json \<Rightarrow> server \<Rightarrow> error option \<times> server" where
  "kick ok h kick_id s =
     (case find_key kick_id (users (heap s (h_room h))) of
        Inl e \<Rightarrow> (Some e, s)
      | Inr None \<Rightarrow> (None, s)
      | Inr (Some w0) \<Rightarrow>
          (case send_to_user ok (h_room_id h) kick_id (Dumps (JObj [(''type'', JStr ''kicked'')])) s of
             (Some e, s1) \<Rightarrow> (Some e, s1)
           | (None, s1) \<Rightarrow>
               (case find_key kick_id (users (heap s1 (h_room h))) of
                  Inl e \<Rightarrow> (Some e, s1)
                | Inr None \<Rightarrow> (Some KeyError, s1)
                | Inr (Some w) \<Rightarrow>
                    (let s2 = close w s1;
                         s3 = set_users (h_room h) (del_key kick_id (users (heap s2 (h_room h)))) s2
                     in (None,
                         notify_users ok (h_room_id h)
                           (JObj [(''type'', JStr ''user-left''), (''userId'', kick_id)]) s3)))))"

text \<open>
  Lines 52 to 106: one turn of the loop, for the text \<open>msg\<close> that \<^verbatim>\<open>receive_text\<close>
  returned. \<open>loads\<close> is \<^verbatim>\<open>json.loads\<close>, \<open>None\<close> where it raises. The result is the
  exception that leaves the loop, if any, and the state at that moment.
\<close>

definition websocket_endpoint_message ::
  "(string \<Rightarrow> json option) \<Rightarrow> transport \<Rightarrow> handler \<Rightarrow> string \<Rightarrow> server
     \<Rightarrow> error option \<times> server" where
  "websocket_endpoint_message loads ok h msg s =
     (case loads msg of
        None \<Rightarrow> (Some JSONDecodeError, s)
      | Some (JObj data) \<Rightarrow>
          (let msg_type = dict_get data ''type'' JNull;
               target = dict_get data ''target'' JNull;
               room_id = h_room_id h;
               user_id = h_user_id h;
               room = h_room h
           in
           if msg_type \<in> set [JStr ''offer'', JStr ''answer'', JStr ''ice-candidate''] then
             send_to_user ok room_id target (Raw msg) s
           else if msg_type = JStr ''chat'' then
             (None, broadcast ok room_id
                (JObj [(''type'', JStr ''chat''), (''userId'', JStr user_id),
                       (''message'', dict_get data ''message'' JNull)]) None s)
           else if msg_type = JStr ''raise-hand'' then
             (None, broadcast ok room_id
                (JObj [(''type'', JStr ''raise-hand''), (''userId'', JStr user_id)]) None s)
           else if msg_type = JStr ''set-password'' then
             (if user_id = host (heap s room) then
                (let s1 = s\<lparr>heap := (heap s)(room := (heap s room)
                             \<lparr>password := dict_get data ''password'' (JStr ''''), locked := True\<rparr>)\<rparr>
                 in (None, broadcast ok room_id
                       (JObj [(''type'', JStr ''room-locked''), (''locked'', JBool True)]) None s1))
              else (None, s))
           else if msg_type = JStr ''unlock-room'' then
             (if user_id = host (heap s room) then
                (let s1 = s\<lparr>heap := (heap s)(room := (heap s room)\<lparr>locked := False\<rparr>)\<rparr>
                 in (None, broadcast ok room_id
                       (JObj [(''type'', JStr ''room-locked''), (''locked'', JBool False)]) None s1))
              else (None, s))
           else if msg_type = JStr ''kick'' then
             (if user_id = host (heap s room) then kick ok h (dict_get data ''kickId'' JNull) s
              else (None, s))
           else (None, broadcast ok room_id (JObj data) (Some user_id) s))
      | Some other \<Rightarrow> (Some AttributeError, s))"

section \<open>Many connections\<close>

text \<open>
  The server as a whole: the program state, the handlers that are inside their message
  loop, and the handlers that an uncaught exception has ended. One input is one thing
  the outside does: a client connects, a text arrives on a connection, or
  \<^verbatim>\<open>receive_text\<close> raises \<^verbatim>\<open>WebSocketDisconnect\<close> on a connection. Each input is
  handled to its end before the next one.
\<close>

record system =
  srv :: server
  live :: "handler list"
  uncaught :: "(ws \<times> error) list"

datatype input = Connect ws string string | Message ws string | Disconnect ws

definition handler_of :: "ws \<Rightarrow> handler list \<Rightarrow> handler option" where
  "handler_of w hs = find (\<lambda>h. h_ws h = w) hs"

definition drop_handler :: "ws \<Rightarrow> handler list \<Rightarrow> handler list" where
  "drop_handler w hs = filter (\<lambda>h. h_ws h \<noteq> w) hs"

fun step :: "(string \<Rightarrow> json option) \<Rightarrow> transport \<Rightarrow> input \<Rightarrow> system \<Rightarrow> system" where
  "step loads ok (Connect w room_id user_id) y =
     (if Accepted w \<in> set (trace (srv y)) then y
      else (case websocket_endpoint_join ok w room_id user_id (srv y) of
              (Admitted r, s1) \<Rightarrow>
                y\<lparr>srv := s1,
                  live := live y @ [\<lparr>h_ws = w, h_room_id = room_id, h_user_id = user_id, h_room = r\<rparr>]\<rparr>
            | (Rejected, s1) \<Rightarrow> y\<lparr>srv := s1\<rparr>
            | (Raised e, s1) \<Rightarrow> y\<lparr>srv := s1, uncaught := uncaught y @ [(w, e)]\<rparr>))"
| "step loads ok (Message w msg) y =
     (case handler_of w (live y) of
        None \<Rightarrow> y
      | Some h \<Rightarrow>
          (case websocket_endpoint_message loads ok h msg (srv y) of
             (None, s1) \<Rightarrow> y\<lparr>srv := s1\<rparr>
           | (Some e, s1) \<Rightarrow>
               y\<lparr>srv := s1, live := drop_handler w (live y), uncaught := uncaught y @ [(w, e)]\<rparr>))"
| "step loads ok (Disconnect w) y =
     (case handler_of w (live y) of
        None \<Rightarrow> y
      | Some h \<Rightarrow>
          y\<lparr>srv := handle_disconnect ok (h_room_id h) (h_user_id h) (srv y),
            live := drop_handler w (live y)\<rparr>)"

definition run :: "(string \<Rightarrow> json option) \<Rightarrow> transport \<Rightarrow> input list \<Rightarrow> system \<Rightarrow> system" where
  "run loads ok ins y = fold (step loads ok) ins y"

text \<open>The server at start: \<^verbatim>\<open>rooms = {}\<close>, nothing sent, no connection.\<close>

definition start :: system where
  "start = \<lparr>srv = \<lparr>rooms = [], heap = (\<lambda>r. \<lparr>users = [], host = [], password = JNull, locked = False\<rparr>),
                  next_ref = 0, trace = []\<rparr>,
            live = [], uncaught = []\<rparr>"

section \<open>Example inputs\<close>

text \<open>
  Concrete inputs for the examples below: a transport on which every send returns, one
  on which every send to connection 11 raises, one on which every send to connection 12
  raises, one on which connection 12 is lost after the first five events, one on which
  a chosen connection is lost after a chosen number of events, and the
  decoding of the message texts the examples use (every other text is taken as
  undecodable).
\<close>

definition reliable :: transport where
  "reliable tr w = True"

definition dead11 :: transport where
  "dead11 tr w = (w \<noteq> 11)"

definition dead12 :: transport where
  "dead12 tr w = (w \<noteq> 12)"

definition late12 :: transport where
  "late12 tr w = (if w = 12 then length tr < 5 else True)"

definition lost_after :: "ws \<Rightarrow> nat \<Rightarrow> transport" where
  "lost_after c n tr w = (if w = c then length tr < n else True)"

definition loads_example :: "string \<Rightarrow> json option" where
  "loads_example m =
     (if m = ''{\"type\": \"kick\", \"kickId\": \"A\"}'' then
        Some (JObj [(''type'', JStr ''kick''), (''kickId'', JStr ''A'')])
      else if m = ''{\"type\": \"kick\", \"kickId\": \"B\"}'' then
        Some (JObj [(''type'', JStr ''kick''), (''kickId'', JStr ''B'')])
      else if m = ''{\"type\": \"kick\"}'' then
        Some (JObj [(''type'', JStr ''kick'')])
      else if m = ''{\"type\": \"unlock-room\"}'' then
        Some (JObj [(''type'', JStr ''unlock-room'')])
      else if m = ''{\"type\": \"set-password\", \"password\": \"pw\"}'' then
        Some (JObj [(''type'', JStr ''set-password''), (''password'', JStr ''pw'')])
      else if m = ''{\"type\": \"ice-candidate\", \"target\": \"B\", \"candidate\": \"c\"}'' then
        Some (JObj [(''type'', JStr ''ice-candidate''), (''target'', JStr ''B''),
                    (''candidate'', JStr ''c'')])
      else if m = ''{\"type\": \"offer\"}'' then
        Some (JObj [(''type'', JStr ''offer'')])
      else if m = ''{\"message\": \"hi\"}'' then
        Some (JObj [(''message'', JStr ''hi'')])
      else if m = ''{\"type\": \"chat\"}'' then
        Some (JObj [(''type'', JStr ''chat'')])
      else if m = ''{\"type\": \"set-password\"}'' then
        Some (JObj [(''type'', JStr ''set-password'')])
      else if m = ''[1]'' then
        Some (JArr [JNum 1])
      else None)"

section \<open>Facts about sending\<close>

lemmas model_defs =
  run_def start_def handler_of_def drop_handler_def websocket_endpoint_join_def
  websocket_endpoint_message_def kick_def handle_disconnect_def notify_users_def
  broadcast_def send_text_def close_def set_users_def del_user_def new_room_def
  dict_get_def user_joined_def user_left_def error_locked_def
  reliable_def dead11_def dead12_def late12_def lost_after_def loads_example_def Let_def

lemma set_users_same [simp]: "set_users r (users (heap s r)) s = s"
  by (simp add: set_users_def)

lemma set_users_fields [simp]:
  "rooms (set_users r us s) = rooms s"
  "next_ref (set_users r us s) = next_ref s"
  "trace (set_users r us s) = trace s"
  "users (heap (set_users r us s) r) = us"
  "host (heap (set_users r us s) r') = host (heap s r')"
  "locked (heap (set_users r us s) r') = locked (heap s r')"
  "password (heap (set_users r us s) r') = password (heap s r')"
  "r' \<noteq> r \<Longrightarrow> heap (set_users r us s) r' = heap s r'"
  by (simp_all add: set_users_def)

text \<open>The second loop of \<^verbatim>\<open>broadcast\<close> drops exactly the entries listed in \<^verbatim>\<open>to_remove\<close>.\<close>

lemma fold_del_user:
  "fold (del_user r) rm s = set_users r (filter (\<lambda>(u, w). u \<notin> set rm) (users (heap s r))) s"
proof (induction rm arbitrary: s)
  case Nil
  then show ?case by simp
next
  case (Cons a rm)
  have "filter (\<lambda>(u, w). u \<notin> set rm) (AList.delete a (users (heap s r)))
        = filter (\<lambda>(u, w). u \<notin> set (a # rm)) (users (heap s r))"
    by (auto simp add: AList.delete_eq intro: filter_cong)
  with Cons show ?case by (simp add: del_user_def set_users_def)
qed

text \<open>
  The first loop: one send per entry that is not excluded, in order; \<open>bs\<close> are the
  outcomes of the sends, each one an answer of the transport for that connection, and
  \<^verbatim>\<open>to_remove\<close> lists the entries whose send raised.
\<close>

lemma send_each_result:
  "\<exists>bs. list_all2 (\<lambda>m b. \<exists>tr. b = ok tr (snd m)) (filter (\<lambda>x. Some (fst x) \<noteq> ex) us) bs \<and>
     send_each ok t ex us s =
       (map (\<lambda>x. fst (fst x))
          (filter (\<lambda>x. \<not> snd x) (zip (filter (\<lambda>x. Some (fst x) \<noteq> ex) us) bs)),
        s\<lparr>trace := trace s @ map (\<lambda>x. Send (snd (fst x)) t (snd x))
                                (zip (filter (\<lambda>x. Some (fst x) \<noteq> ex) us) bs)\<rparr>)"
proof (induction us arbitrary: s)
  case Nil
  then show ?case by simp
next
  case (Cons a us)
  obtain u w where a: "a = (u, w)" by (cases a)
  show ?case
  proof (cases "Some u = ex")
    case True
    with Cons [of s] a show ?thesis by simp
  next
    case False
    let ?s1 = "s\<lparr>trace := trace s @ [Send w t (ok (trace s) w)]\<rparr>"
    from Cons [of ?s1] obtain bs where
      len: "list_all2 (\<lambda>m b. \<exists>tr. b = ok tr (snd m)) (filter (\<lambda>x. Some (fst x) \<noteq> ex) us) bs" and
      eq: "send_each ok t ex us ?s1 =
       (map (\<lambda>x. fst (fst x))
          (filter (\<lambda>x. \<not> snd x) (zip (filter (\<lambda>x. Some (fst x) \<noteq> ex) us) bs)),
        ?s1\<lparr>trace := trace ?s1 @ map (\<lambda>x. Send (snd (fst x)) t (snd x))
                                  (zip (filter (\<lambda>x. Some (fst x) \<noteq> ex) us) bs)\<rparr>)"
      by blast
    have here: "\<exists>tr. ok (trace s) w = ok tr w"
      by blast
    show ?thesis
    proof (cases "ok (trace s) w")
      case True
      with False a len eq here show ?thesis
        by (intro exI [of _ "True # bs"]) (simp add: send_text_def)
    next
      case nok: False
      with False a len eq here show ?thesis
        by (intro exI [of _ "False # bs"]) (simp add: send_text_def)
    qed
  qed
qed

lemma broadcast_result:
  assumes "map_of (rooms s) room_id = Some r"
  shows "\<exists>bs. list_all2 (\<lambda>m b. \<exists>tr. b = ok tr (snd m))
       (filter (\<lambda>x. Some (fst x) \<noteq> ex) (users (heap s r))) bs \<and>
     broadcast ok room_id (JObj kvs) ex s =
       set_users r
         (filter (\<lambda>x. fst x \<notin> set (map (\<lambda>x. fst (fst x)) (filter (\<lambda>x. \<not> snd x)
             (zip (filter (\<lambda>x. Some (fst x) \<noteq> ex) (users (heap s r))) bs))))
           (users (heap s r)))
         (s\<lparr>trace := trace s @ map (\<lambda>x. Send (snd (fst x)) (Dumps (JObj kvs)) (snd x))
             (zip (filter (\<lambda>x. Some (fst x) \<noteq> ex) (users (heap s r))) bs)\<rparr>)"
proof -
  from send_each_result [where ex = ex and us = "users (heap s r)" and ok = ok
      and t = "Dumps (JObj kvs)" and s = s]
  obtain bs where
    len: "list_all2 (\<lambda>m b. \<exists>tr. b = ok tr (snd m))
       (filter (\<lambda>x. Some (fst x) \<noteq> ex) (users (heap s r))) bs" and
    eq: "send_each ok (Dumps (JObj kvs)) ex (users (heap s r)) s =
       (map (\<lambda>x. fst (fst x))
          (filter (\<lambda>x. \<not> snd x)
             (zip (filter (\<lambda>x. Some (fst x) \<noteq> ex) (users (heap s r))) bs)),
        s\<lparr>trace := trace s @ map (\<lambda>x. Send (snd (fst x)) (Dumps (JObj kvs)) (snd x))
              (zip (filter (\<lambda>x. Some (fst x) \<noteq> ex) (users (heap s r))) bs)\<rparr>)"
    by blast
  with assms show ?thesis
    by (intro exI [of _ bs]) (simp add: broadcast_def fold_del_user case_prod_unfold)
qed

lemma all_ok_outcomes:
  assumes "list_all2 (\<lambda>m b. \<exists>tr. b = ok tr (snd m)) ms bs"
    and "\<forall>tr. \<forall>m \<in> set ms. ok tr (snd m)"
  shows "zip ms bs = map (\<lambda>m. (m, True)) ms"
  using assms by (induction rule: list_all2_induct) auto

lemma broadcast_shape:
  "\<exists>r us tr. broadcast ok room_id (JObj kvs) ex s = set_users r us (s\<lparr>trace := tr\<rparr>)"
proof (cases "map_of (rooms s) room_id")
  case None
  have "s = set_users 0 (users (heap s 0)) (s\<lparr>trace := trace s\<rparr>)"
    by (simp add: set_users_def)
  with None show ?thesis
    unfolding broadcast_def by (metis option.simps(4))
next
  case (Some r)
  from broadcast_result [OF Some, where ex = ex and ok = ok and kvs = kvs] show ?thesis by blast
qed

text \<open>A broadcast touches nothing but the trace and the member maps.\<close>

lemma broadcast_rooms [simp]: "rooms (broadcast ok room_id (JObj kvs) ex s) = rooms s"
  using broadcast_shape [of ok room_id kvs ex s] by auto

lemma broadcast_next_ref [simp]: "next_ref (broadcast ok room_id (JObj kvs) ex s) = next_ref s"
  using broadcast_shape [of ok room_id kvs ex s] by auto

lemma broadcast_host [simp]:
  "host (heap (broadcast ok room_id (JObj kvs) ex s) r') = host (heap s r')"
  using broadcast_shape [of ok room_id kvs ex s] by auto

lemma broadcast_locked [simp]:
  "locked (heap (broadcast ok room_id (JObj kvs) ex s) r') = locked (heap s r')"
  using broadcast_shape [of ok room_id kvs ex s] by auto

lemma broadcast_password [simp]:
  "password (heap (broadcast ok room_id (JObj kvs) ex s) r') = password (heap s r')"
  using broadcast_shape [of ok room_id kvs ex s] by auto







text \<open>
  An admitted join: the joiner's entry is written into the member map (at the end when
  the id is new), then every member is sent the \<^verbatim>\<open>user-joined\<close> event with the ordered
  member list and the host; members with a send that raised are dropped.
\<close>

lemma delete_filter: "AList.delete k xs = filter (\<lambda>m. fst m \<noteq> k) xs"
  by (induction xs) auto

lemma update_fresh: "k \<notin> fst ` set xs \<Longrightarrow> AList.update k v xs = xs @ [(k, v)]"
  by (induction xs) auto

lemma join_result:
  assumes "map_of (rooms s) room_id = Some r"
    and "\<not> locked (heap s r) \<or> user_id = host (heap s r)"
  shows "\<exists>bs. list_all2 (\<lambda>m b. \<exists>tr. b = ok tr (snd m))
               (AList.update user_id w (users (heap s r))) bs \<and>
     websocket_endpoint_join ok w room_id user_id s =
       (Admitted r,
        set_users r
          (filter (\<lambda>m. fst m \<notin> set (map (\<lambda>x. fst (fst x))
                     (filter (\<lambda>x. \<not> snd x) (zip (AList.update user_id w (users (heap s r))) bs))))
             (AList.update user_id w (users (heap s r))))
          (s\<lparr>trace := trace s @ Accepted w #
               map (\<lambda>x. Send (snd (fst x))
                      (Dumps (user_joined user_id
                                (map fst (AList.update user_id w (users (heap s r))))
                                (host (heap s r))))
                      (snd x))
                 (zip (AList.update user_id w (users (heap s r))) bs)\<rparr>))"
proof -
  let ?us = "AList.update user_id w (users (heap s r))"
  let ?s2 = "set_users r ?us (s\<lparr>trace := trace s @ [Accepted w]\<rparr>)"
  let ?kvs = "[(''type'', JStr ''user-joined''), (''userId'', JStr user_id),
           (''users'', JArr (map JStr (map fst ?us))), (''host'', JStr (host (heap s r)))]"
  have r2: "map_of (rooms ?s2) room_id = Some r"
    using assms(1) by simp
  from broadcast_result [OF r2, where ok = ok and ex = None and kvs = ?kvs]
  obtain bs where
    bs: "list_all2 (\<lambda>m b. \<exists>tr. b = ok tr (snd m)) ?us bs" and
    eq: "broadcast ok room_id (JObj ?kvs) None ?s2 =
       set_users r
         (filter (\<lambda>x. fst x \<notin> set (map (\<lambda>x. fst (fst x)) (filter (\<lambda>x. \<not> snd x) (zip ?us bs)))) ?us)
         (?s2\<lparr>trace := trace ?s2 @ map (\<lambda>x. Send (snd (fst x)) (Dumps (JObj ?kvs)) (snd x)) (zip ?us bs)\<rparr>)"
    by auto
  have "websocket_endpoint_join ok w room_id user_id s =
          (Admitted r, broadcast ok room_id (JObj ?kvs) None ?s2)"
    using assms
    by (auto simp add: websocket_endpoint_join_def Let_def notify_users_def user_joined_def set_users_def)
  with bs eq show ?thesis
    by (intro exI [of _ bs]) (simp add: user_joined_def set_users_def)
qed

lemma join_appends:
  assumes "map_of (rooms s) room_id = Some r"
    and "\<not> locked (heap s r)"
    and "user_id \<notin> fst ` set (users (heap s r))"
    and "\<forall>tr. \<forall>m \<in> set (users (heap s r) @ [(user_id, w)]). ok tr (snd m)"
  shows "users (heap (snd (websocket_endpoint_join ok w room_id user_id s)) r) =
           users (heap s r) @ [(user_id, w)]"
proof -
  let ?us = "AList.update user_id w (users (heap s r))"
  have us: "?us = users (heap s r) @ [(user_id, w)]"
    using assms(3) by (rule update_fresh)
  from join_result [where ok = ok and w = w and user_id = user_id, OF assms(1)] assms(2)
  obtain bs where
    bs: "list_all2 (\<lambda>m b. \<exists>tr. b = ok tr (snd m)) ?us bs" and
    eq: "users (heap (snd (websocket_endpoint_join ok w room_id user_id s)) r) =
          filter (\<lambda>m. fst m \<notin> set (map (\<lambda>x. fst (fst x))
                     (filter (\<lambda>x. \<not> snd x) (zip ?us bs)))) ?us"
    by fastforce
  have "zip ?us bs = map (\<lambda>m. (m, True)) ?us"
    using bs assms(4) unfolding us by (rule all_ok_outcomes)
  then have "filter (\<lambda>x. \<not> snd x) (zip ?us bs) = []"
    by (simp add: filter_map comp_def)
  with eq have "users (heap (snd (websocket_endpoint_join ok w room_id user_id s)) r) = ?us"
    by simp
  with us show ?thesis
    by simp
qed


lemma set_users_same_trace [simp]:
  "set_users r (users (heap s r)) (s\<lparr>trace := t\<rparr>) = s\<lparr>trace := t\<rparr>"
  by (simp add: set_users_def)





text \<open>
  The host check of \<^verbatim>\<open>set-password\<close> reads the room the handler holds: when the user
  is not the host of that room, the message changes nothing and sends nothing.
\<close>

lemma set_password_non_host:
  assumes "loads msg = Some (JObj data)"
    and "map_of data ''type'' = Some (JStr ''set-password'')"
    and "h_user_id h \<noteq> host (heap s (h_room h))"
  shows "websocket_endpoint_message loads ok h msg s = (None, s)"
  using assms by (simp add: websocket_endpoint_message_def dict_get_def)

lemma set_password_non_host_example:
  "host (heap (srv (run loads_example reliable
      [Connect 11 ''r'' ''A'', Connect 12 ''r'' ''C''] start)) 0) = ''A'' \<and>
   websocket_endpoint_message loads_example reliable
     \<lparr>h_ws = 12, h_room_id = ''r'', h_user_id = ''C'', h_room = 0\<rparr>
     ''{\"type\": \"set-password\", \"password\": \"pw\"}''
     (srv (run loads_example reliable [Connect 11 ''r'' ''A'', Connect 12 ''r'' ''C''] start)) =
   (None, srv (run loads_example reliable [Connect 11 ''r'' ''A'', Connect 12 ''r'' ''C''] start))"
proof -
  let ?s = "srv (run loads_example reliable [Connect 11 ''r'' ''A'', Connect 12 ''r'' ''C''] start)"
  let ?h = "\<lparr>h_ws = 12, h_room_id = ''r'', h_user_id = ''C'', h_room = 0\<rparr>"
  let ?m = "''{\"type\": \"set-password\", \"password\": \"pw\"}''"
  have l: "loads_example ?m = Some (JObj [(''type'', JStr ''set-password''), (''password'', JStr ''pw'')])"
    by (simp add: loads_example_def)
  have t: "map_of [(''type'', JStr ''set-password''), (''password'', JStr ''pw'')] ''type''
             = Some (JStr ''set-password'')"
    by simp
  have hst: "host (heap ?s 0) = ''A''"
    by (simp add: model_defs)
  then have "h_user_id ?h \<noteq> host (heap ?s (h_room ?h))"
    by simp
  from set_password_non_host [where loads = loads_example and msg = ?m and h = ?h and s = ?s, OF l t this] hst show ?thesis
    by simp
qed

text \<open>
  The promotion in \<^verbatim>\<open>handle_disconnect\<close>: when the leaving host is still a key of the
  member map and others remain, the host becomes the first of the remaining entries.
\<close>

lemma host_promotion_earliest:
  assumes "map_of (rooms s) room_id = Some r"
    and "host (heap s r) = user_id"
    and "user_id \<in> fst ` set (users (heap s r))"
    and "filter (\<lambda>m. fst m \<noteq> user_id) (users (heap s r)) = (u, w) # rest"
  shows "map_of (rooms (handle_disconnect ok room_id user_id s)) room_id = Some r \<and>
         host (heap (handle_disconnect ok room_id user_id s) r) = u"
  using assms
  by (auto simp add: handle_disconnect_def map_of_eq_None_iff del_user_def notify_users_def
      user_left_def Let_def delete_filter)

lemma host_promotion_example:
  "users (heap (srv (run loads_example reliable
      [Connect 11 ''r'' ''A'', Connect 12 ''r'' ''B'', Connect 13 ''r'' ''C''] start)) 0)
     = [(''A'', 11), (''B'', 12), (''C'', 13)] \<and>
   host (heap (srv (run loads_example reliable
      [Connect 11 ''r'' ''A'', Connect 12 ''r'' ''B'', Connect 13 ''r'' ''C''] start)) 0) = ''A'' \<and>
   host (heap (handle_disconnect reliable ''r'' ''A'' (srv (run loads_example reliable
      [Connect 11 ''r'' ''A'', Connect 12 ''r'' ''B'', Connect 13 ''r'' ''C''] start))) 0) = ''B''"
proof -
  let ?s = "srv (run loads_example reliable
        [Connect 11 ''r'' ''A'', Connect 12 ''r'' ''B'', Connect 13 ''r'' ''C''] start)"
  have r: "map_of (rooms ?s) ''r'' = Some 0"
    by (simp add: model_defs)
  have us: "users (heap ?s 0) = [(''A'', 11), (''B'', 12), (''C'', 13)]"
    by (simp add: model_defs)
  have hst: "host (heap ?s 0) = ''A''"
    by (simp add: model_defs)
  have mem: "''A'' \<in> fst ` set (users (heap ?s 0))"
    unfolding us by simp
  have rest: "filter (\<lambda>m. fst m \<noteq> ''A'') (users (heap ?s 0)) = (''B'', 12) # [(''C'', 13)]"
    unfolding us by simp
  from host_promotion_earliest [where ok = reliable, OF r hst mem rest] us hst show ?thesis
    by simp
qed

section \<open>Claims\<close>

subsection \<open>C10: disconnect cleanup for a user who is not a member\<close>

text \<open>
  C10. When the room is registered and the user id is not a key of its member map,
  \<^verbatim>\<open>handle_disconnect\<close> returns the server exactly as it was: registry, every room
  (members, host, locked, password) and trace. So nothing is sent, no host is promoted
  and no room is deleted.
\<close>

theorem handle_disconnect_non_member:
  assumes "map_of (rooms s) room_id = Some r"
    and "user_id \<notin> fst ` set (users (heap s r))"
  shows "handle_disconnect ok room_id user_id s = s"
  using assms by (simp add: handle_disconnect_def map_of_eq_None_iff)

text \<open>
  An instance: B's own join broadcast failed on B's connection, so B was removed lazily;
  the cleanup for B then changes nothing.
\<close>

theorem handle_disconnect_non_member_witness:
  "map_of (rooms (srv (run loads_example dead12
      [Connect 11 ''r'' ''A'', Connect 12 ''r'' ''B''] start))) ''r'' = Some 0 \<and>
   users (heap (srv (run loads_example dead12
      [Connect 11 ''r'' ''A'', Connect 12 ''r'' ''B''] start)) 0) = [(''A'', 11)] \<and>
   handle_disconnect dead12 ''r'' ''B''
     (srv (run loads_example dead12 [Connect 11 ''r'' ''A'', Connect 12 ''r'' ''B''] start)) =
   srv (run loads_example dead12 [Connect 11 ''r'' ''A'', Connect 12 ''r'' ''B''] start)"
proof -
  let ?s = "srv (run loads_example dead12 [Connect 11 ''r'' ''A'', Connect 12 ''r'' ''B''] start)"
  have r: "map_of (rooms ?s) ''r'' = Some 0"
    by (simp add: model_defs)
  have us: "users (heap ?s 0) = [(''A'', 11)]"
    by (simp add: model_defs)
  have "''B'' \<notin> fst ` set (users (heap ?s 0))"
    unfolding us by simp
  from handle_disconnect_non_member [OF r this] r us show ?thesis
    by simp
qed

subsection \<open>C9: relay of offer, answer and ice-candidate\<close>

text \<open>
  C9. For an \<^verbatim>\<open>offer\<close>, \<^verbatim>\<open>answer\<close> or \<^verbatim>\<open>ice-candidate\<close> message whose target \<open>b\<close> is a
  member of the sender's registered room, the only thing the server does is one
  \<^verbatim>\<open>send_text\<close> on \<open>b\<close>'s connection, of the received text as it came. No other connection
  is sent anything, and the loop goes on.
\<close>

theorem relay_unicast:
  assumes "loads msg = Some (JObj data)"
    and "map_of data ''type'' = Some (JStr ty)"
    and "ty \<in> {''offer'', ''answer'', ''ice-candidate''}"
    and "map_of data ''target'' = Some (JStr b)"
    and "map_of (rooms s) (h_room_id h) = Some r"
    and "map_of (users (heap s r)) b = Some wb"
  shows "fst (websocket_endpoint_message loads ok h msg s) = None \<and>
         trace (snd (websocket_endpoint_message loads ok h msg s)) =
           trace s @ [Send wb (Raw msg) (ok (trace s) wb)]"
  using assms
  by (auto simp add: websocket_endpoint_message_def dict_get_def send_text_def set_users_def
      split: bool.splits)

theorem relay_unicast_witness:
  "users (heap (srv (run loads_example reliable
      [Connect 11 ''r'' ''A'', Connect 12 ''r'' ''B'', Connect 13 ''r'' ''C''] start)) 0)
     = [(''A'', 11), (''B'', 12), (''C'', 13)] \<and>
   fst (websocket_endpoint_message loads_example reliable
     \<lparr>h_ws = 11, h_room_id = ''r'', h_user_id = ''A'', h_room = 0\<rparr>
     ''{\"type\": \"ice-candidate\", \"target\": \"B\", \"candidate\": \"c\"}''
     (srv (run loads_example reliable
        [Connect 11 ''r'' ''A'', Connect 12 ''r'' ''B'', Connect 13 ''r'' ''C''] start))) = None \<and>
   trace (snd (websocket_endpoint_message loads_example reliable
     \<lparr>h_ws = 11, h_room_id = ''r'', h_user_id = ''A'', h_room = 0\<rparr>
     ''{\"type\": \"ice-candidate\", \"target\": \"B\", \"candidate\": \"c\"}''
     (srv (run loads_example reliable
        [Connect 11 ''r'' ''A'', Connect 12 ''r'' ''B'', Connect 13 ''r'' ''C''] start)))) =
   trace (srv (run loads_example reliable
        [Connect 11 ''r'' ''A'', Connect 12 ''r'' ''B'', Connect 13 ''r'' ''C''] start)) @
   [Send 12 (Raw ''{\"type\": \"ice-candidate\", \"target\": \"B\", \"candidate\": \"c\"}'') True]"
proof -
  let ?s = "srv (run loads_example reliable
        [Connect 11 ''r'' ''A'', Connect 12 ''r'' ''B'', Connect 13 ''r'' ''C''] start)"
  let ?h = "\<lparr>h_ws = 11, h_room_id = ''r'', h_user_id = ''A'', h_room = 0\<rparr>"
  let ?m = "''{\"type\": \"ice-candidate\", \"target\": \"B\", \"candidate\": \"c\"}''"
  let ?d = "[(''type'', JStr ''ice-candidate''), (''target'', JStr ''B''),
             (''candidate'', JStr ''c'')]"
  have l: "loads_example ?m = Some (JObj ?d)"
    by (simp add: loads_example_def)
  have ty: "map_of ?d ''type'' = Some (JStr ''ice-candidate'')"
    by simp
  have mem: "''ice-candidate'' \<in> {''offer'', ''answer'', ''ice-candidate''}"
    by simp
  have tg: "map_of ?d ''target'' = Some (JStr ''B'')"
    by simp
  have r: "map_of (rooms ?s) (h_room_id ?h) = Some 0"
    by (simp add: model_defs)
  have us: "users (heap ?s 0) = [(''A'', 11), (''B'', 12), (''C'', 13)]"
    by (simp add: model_defs)
  have b: "map_of (users (heap ?s 0)) ''B'' = Some 12"
    unfolding us by simp
  from relay_unicast [where loads = loads_example and msg = ?m and h = ?h and s = ?s
      and ok = reliable, OF l ty mem tg r b] us
  show ?thesis
    by (simp add: reliable_def)
qed

subsection \<open>C5: joining a locked room\<close>

text \<open>
  C5. When the room is registered and locked and the joiner is not its host, the join
  sends the error event to the joiner and closes the joiner's connection; the registry
  and every room are unchanged (the joiner is not added) and nothing is sent to anybody
  else, so there is no \<^verbatim>\<open>user-joined\<close> broadcast. The close follows the send when the
  send returns; when the transport makes the send raise, the handler ends with that
  exception, still without touching any room.
\<close>

theorem locked_room_rejects:
  assumes "map_of (rooms s) room_id = Some r"
    and "locked (heap s r)"
    and "user_id \<noteq> host (heap s r)"
  shows "websocket_endpoint_join ok w room_id user_id s =
          (if ok (trace s @ [Accepted w]) w
           then (Rejected,
                 s\<lparr>trace := trace s @
                    [Accepted w,
                     Send w (Dumps (JObj [(''type'', JStr ''error''),
                                          (''message'', JStr ''Room is locked'')])) True,
                     Closed w]\<rparr>)
           else (Raised SendError,
                 s\<lparr>trace := trace s @
                    [Accepted w,
                     Send w (Dumps (JObj [(''type'', JStr ''error''),
                                          (''message'', JStr ''Room is locked'')])) False]\<rparr>))"
  using assms
  by (auto simp add: websocket_endpoint_join_def send_text_def close_def error_locked_def)

theorem locked_room_rejects_witness:
  "locked (heap (srv (run loads_example reliable
      [Connect 11 ''r1'' ''A'',
       Message 11 ''{\"type\": \"set-password\", \"password\": \"pw\"}''] start)) 0) \<and>
   host (heap (srv (run loads_example reliable
      [Connect 11 ''r1'' ''A'',
       Message 11 ''{\"type\": \"set-password\", \"password\": \"pw\"}''] start)) 0) = ''A'' \<and>
   websocket_endpoint_join reliable 14 ''r1'' ''D''
     (srv (run loads_example reliable
      [Connect 11 ''r1'' ''A'',
       Message 11 ''{\"type\": \"set-password\", \"password\": \"pw\"}''] start)) =
   (Rejected,
    (srv (run loads_example reliable
      [Connect 11 ''r1'' ''A'',
       Message 11 ''{\"type\": \"set-password\", \"password\": \"pw\"}''] start))
    \<lparr>trace := trace (srv (run loads_example reliable
      [Connect 11 ''r1'' ''A'',
       Message 11 ''{\"type\": \"set-password\", \"password\": \"pw\"}''] start)) @
       [Accepted 14,
        Send 14 (Dumps (JObj [(''type'', JStr ''error''),
                              (''message'', JStr ''Room is locked'')])) True,
        Closed 14]\<rparr>)"
proof -
  let ?s = "srv (run loads_example reliable
      [Connect 11 ''r1'' ''A'',
       Message 11 ''{\"type\": \"set-password\", \"password\": \"pw\"}''] start)"
  have r: "map_of (rooms ?s) ''r1'' = Some 0"
    by (simp add: model_defs)
  have lk: "locked (heap ?s 0)"
    by (simp add: model_defs)
  have hst: "host (heap ?s 0) = ''A''"
    by (simp add: model_defs)
  then have ne: "''D'' \<noteq> host (heap ?s 0)"
    by simp
  from locked_room_rejects [where ok = reliable and w = 14, OF r lk ne] lk hst show ?thesis
    by (simp add: reliable_def)
qed

subsection \<open>C7: unlock-room on an unlocked room\<close>





subsection \<open>C1: malformed messages\<close>




subsection \<open>C2: the host is a member\<close>

text \<open>
  C2 does not hold of the code. When the host A kicks their own id while B is a member,
  the room stays registered with members B only and host A, also after A's connection
  has ended and its cleanup has run. The same state arises by lazy removal: every send
  to A's connection raises, so the join broadcasts remove A, and the room is left with
  members B only and host A.
\<close>

theorem host_not_a_member:
  "map_of (rooms (srv (run loads_example reliable
      [Connect 11 ''r'' ''A'', Connect 12 ''r'' ''B'',
       Message 11 ''{\"type\": \"kick\", \"kickId\": \"A\"}'', Disconnect 11] start))) ''r''
     = Some 0 \<and>
   users (heap (srv (run loads_example reliable
      [Connect 11 ''r'' ''A'', Connect 12 ''r'' ''B'',
       Message 11 ''{\"type\": \"kick\", \"kickId\": \"A\"}'', Disconnect 11] start)) 0)
     = [(''B'', 12)] \<and>
   host (heap (srv (run loads_example reliable
      [Connect 11 ''r'' ''A'', Connect 12 ''r'' ''B'',
       Message 11 ''{\"type\": \"kick\", \"kickId\": \"A\"}'', Disconnect 11] start)) 0)
     = ''A'' \<and>
   map_of (rooms (srv (run loads_example dead11
      [Connect 11 ''r'' ''A'', Connect 12 ''r'' ''B'', Disconnect 11] start))) ''r'' = Some 0 \<and>
   users (heap (srv (run loads_example dead11
      [Connect 11 ''r'' ''A'', Connect 12 ''r'' ''B'', Disconnect 11] start)) 0)
     = [(''B'', 12)] \<and>
   host (heap (srv (run loads_example dead11
      [Connect 11 ''r'' ''A'', Connect 12 ''r'' ''B'', Disconnect 11] start)) 0) = ''A''"
  by (simp add: model_defs)

subsection \<open>C3: a registered room has a member\<close>

text \<open>
  C3 does not hold of the code. When the only member A, the host, kicks their own id,
  the room stays registered with no member, also after A's connection has ended and its
  cleanup has run. The same state arises by lazy removal when the send of A's own
  \<^verbatim>\<open>user-joined\<close> event raises.
\<close>

theorem empty_room_registered:
  "map_of (rooms (srv (run loads_example reliable
      [Connect 11 ''r'' ''A'',
       Message 11 ''{\"type\": \"kick\", \"kickId\": \"A\"}'', Disconnect 11] start))) ''r''
     = Some 0 \<and>
   users (heap (srv (run loads_example reliable
      [Connect 11 ''r'' ''A'',
       Message 11 ''{\"type\": \"kick\", \"kickId\": \"A\"}'', Disconnect 11] start)) 0) = [] \<and>
   map_of (rooms (srv (run loads_example dead11
      [Connect 11 ''r'' ''A'', Disconnect 11] start))) ''r'' = Some 0 \<and>
   users (heap (srv (run loads_example dead11
      [Connect 11 ''r'' ''A'', Disconnect 11] start)) 0) = []"
  by (simp add: model_defs)

subsection \<open>C6: the user-left event after a kick\<close>

text \<open>
  C6 does not hold of the code. When the host A kicks B, the room persists and the
  \<^verbatim>\<open>user-left\<close> event that is broadcast holds \<^verbatim>\<open>type\<close> and \<^verbatim>\<open>userId\<close> only: it has no
  \<^verbatim>\<open>host\<close> field.
\<close>

theorem kick_user_left_has_no_host:
  "trace (srv (run loads_example reliable
      [Connect 11 ''r'' ''A'', Connect 12 ''r'' ''B'',
       Message 11 ''{\"type\": \"kick\", \"kickId\": \"B\"}''] start)) =
   trace (srv (run loads_example reliable
      [Connect 11 ''r'' ''A'', Connect 12 ''r'' ''B''] start)) @
   [Send 12 (Dumps (JObj [(''type'', JStr ''kicked'')])) True,
    Closed 12,
    Send 11 (Dumps (JObj [(''type'', JStr ''user-left''), (''userId'', JStr ''B'')])) True] \<and>
   map_of (rooms (srv (run loads_example reliable
      [Connect 11 ''r'' ''A'', Connect 12 ''r'' ''B'',
       Message 11 ''{\"type\": \"kick\", \"kickId\": \"B\"}''] start))) ''r'' = Some 0 \<and>
   users (heap (srv (run loads_example reliable
      [Connect 11 ''r'' ''A'', Connect 12 ''r'' ''B'',
       Message 11 ''{\"type\": \"kick\", \"kickId\": \"B\"}''] start)) 0) = [(''A'', 11)]"
  by (simp add: model_defs)

subsection \<open>C4: host promotion\<close>

text \<open>
  C4 does not hold of the code. A, B, C join in that order; A's connection is lost, so
  the broadcast of C's join removes A lazily; then A's handler sees the disconnect. B and
  C remain, but \<^verbatim>\<open>handle_disconnect\<close> does nothing for a user who is no key of the member
  map: the host is still A and nobody is promoted. The same happens when the host A has
  kicked their own id before disconnecting. And when B's connection is lost and the host
  A disconnects, B is promoted and then removed by the \<^verbatim>\<open>user-left\<close> broadcast: the
  host is B while C is the only member.
\<close>

theorem host_not_promoted:
  "host (heap (srv (run loads_example (lost_after 11 5)
      [Connect 11 ''r'' ''A'', Connect 12 ''r'' ''B'', Connect 13 ''r'' ''C''] start)) 0) = ''A'' \<and>
   users (heap (srv (run loads_example (lost_after 11 5)
      [Connect 11 ''r'' ''A'', Connect 12 ''r'' ''B'', Connect 13 ''r'' ''C''] start)) 0)
     = [(''B'', 12), (''C'', 13)] \<and>
   map h_ws (live (run loads_example (lost_after 11 5)
      [Connect 11 ''r'' ''A'', Connect 12 ''r'' ''B'', Connect 13 ''r'' ''C''] start))
     = [11, 12, 13] \<and>
   map_of (rooms (srv (run loads_example (lost_after 11 5)
      [Connect 11 ''r'' ''A'', Connect 12 ''r'' ''B'', Connect 13 ''r'' ''C'',
       Disconnect 11] start))) ''r'' = Some 0 \<and>
   users (heap (srv (run loads_example (lost_after 11 5)
      [Connect 11 ''r'' ''A'', Connect 12 ''r'' ''B'', Connect 13 ''r'' ''C'',
       Disconnect 11] start)) 0) = [(''B'', 12), (''C'', 13)] \<and>
   host (heap (srv (run loads_example (lost_after 11 5)
      [Connect 11 ''r'' ''A'', Connect 12 ''r'' ''B'', Connect 13 ''r'' ''C'',
       Disconnect 11] start)) 0) = ''A'' \<and>
   users (heap (srv (run loads_example reliable
      [Connect 11 ''r'' ''A'', Connect 12 ''r'' ''B'', Connect 13 ''r'' ''C'',
       Message 11 ''{\"type\": \"kick\", \"kickId\": \"A\"}'', Disconnect 11] start)) 0)
     = [(''B'', 12), (''C'', 13)] \<and>
   host (heap (srv (run loads_example reliable
      [Connect 11 ''r'' ''A'', Connect 12 ''r'' ''B'', Connect 13 ''r'' ''C'',
       Message 11 ''{\"type\": \"kick\", \"kickId\": \"A\"}'', Disconnect 11] start)) 0)
     = ''A'' \<and>
   users (heap (srv (run loads_example (lost_after 12 8)
      [Connect 11 ''r'' ''A'', Connect 12 ''r'' ''B'', Connect 13 ''r'' ''C''] start)) 0)
     = [(''A'', 11), (''B'', 12), (''C'', 13)] \<and>
   users (heap (srv (run loads_example (lost_after 12 8)
      [Connect 11 ''r'' ''A'', Connect 12 ''r'' ''B'', Connect 13 ''r'' ''C'',
       Disconnect 11] start)) 0) = [(''C'', 13)] \<and>
   host (heap (srv (run loads_example (lost_after 12 8)
      [Connect 11 ''r'' ''A'', Connect 12 ''r'' ''B'', Connect 13 ''r'' ''C'',
       Disconnect 11] start)) 0) = ''B''"
  by (simp add: model_defs)

subsection \<open>C8: set-password from a non-host\<close>

text \<open>
  C8 does not hold of the code. The id B joins room r twice; the second connection
  disconnects, which deletes the room; C and D join the room r created anew, with host
  C. The first connection of B is still in its loop and holds the deleted room, whose
  host is B. Its \<^verbatim>\<open>set-password\<close> passes the host check on that room, and the
  \<^verbatim>\<open>room-locked\<close> event is broadcast to C and D, although B is neither host nor
  member of the registered room (whose locked field stays false).
\<close>

theorem set_password_stale_host:
  "map_of (rooms (srv (run loads_example reliable
      [Connect 11 ''r'' ''B'', Connect 12 ''r'' ''B'', Disconnect 12,
       Connect 13 ''r'' ''C'', Connect 14 ''r'' ''D''] start))) ''r'' = Some 1 \<and>
   host (heap (srv (run loads_example reliable
      [Connect 11 ''r'' ''B'', Connect 12 ''r'' ''B'', Disconnect 12,
       Connect 13 ''r'' ''C'', Connect 14 ''r'' ''D''] start)) 1) = ''C'' \<and>
   users (heap (srv (run loads_example reliable
      [Connect 11 ''r'' ''B'', Connect 12 ''r'' ''B'', Disconnect 12,
       Connect 13 ''r'' ''C'', Connect 14 ''r'' ''D''] start)) 1) = [(''C'', 13), (''D'', 14)] \<and>
   handler_of 11 (live (run loads_example reliable
      [Connect 11 ''r'' ''B'', Connect 12 ''r'' ''B'', Disconnect 12,
       Connect 13 ''r'' ''C'', Connect 14 ''r'' ''D''] start)) =
     Some \<lparr>h_ws = 11, h_room_id = ''r'', h_user_id = ''B'', h_room = 0\<rparr> \<and>
   trace (srv (run loads_example reliable
      [Connect 11 ''r'' ''B'', Connect 12 ''r'' ''B'', Disconnect 12,
       Connect 13 ''r'' ''C'', Connect 14 ''r'' ''D'',
       Message 11 ''{\"type\": \"set-password\", \"password\": \"pw\"}''] start)) =
   trace (srv (run loads_example reliable
      [Connect 11 ''r'' ''B'', Connect 12 ''r'' ''B'', Disconnect 12,
       Connect 13 ''r'' ''C'', Connect 14 ''r'' ''D''] start)) @
   [Send 13 (Dumps (JObj [(''type'', JStr ''room-locked''), (''locked'', JBool True)])) True,
    Send 14 (Dumps (JObj [(''type'', JStr ''room-locked''), (''locked'', JBool True)])) True] \<and>
   locked (heap (srv (run loads_example reliable
      [Connect 11 ''r'' ''B'', Connect 12 ''r'' ''B'', Disconnect 12,
       Connect 13 ''r'' ''C'', Connect 14 ''r'' ''D'',
       Message 11 ''{\"type\": \"set-password\", \"password\": \"pw\"}''] start)) 1) = False \<and>
   uncaught (run loads_example reliable
      [Connect 11 ''r'' ''B'', Connect 12 ''r'' ''B'', Disconnect 12,
       Connect 13 ''r'' ''C'', Connect 14 ''r'' ''D'',
       Message 11 ''{\"type\": \"set-password\", \"password\": \"pw\"}''] start) = []"
  by (simp add: model_defs)

end
